theory Spec2Isabelle
  imports Complex_Main "HOL-Library.Sublist"
begin

section \<open>The backoff generator of \<^verbatim>\<open>youtube_summarizer.py\<close>\<close>

text \<open>
  \<^verbatim>\<open>max_wait_time\<close> is a Python float (default \<^verbatim>\<open>float("inf")\<close>; the one use in
  the repository passes the int \<^verbatim>\<open>60\<close>). A finite float or int is a real number here;
  Python compares an int with a float exactly, and every comparison with NaN is false.
\<close>

datatype pyfloat = Finite real | PosInf | NegInf | NaN

fun int_le_float :: "int \<Rightarrow> pyfloat \<Rightarrow> bool" where
  "int_le_float b (Finite r) = (real_of_int b \<le> r)"
| "int_le_float b PosInf = True"
| "int_le_float b NegInf = False"
| "int_le_float b NaN = False"

text \<open>
  A generator object of \<^verbatim>\<open>fibonacci_wait_times\<close> is either not yet started, or
  suspended at its \<^verbatim>\<open>yield a\<close> with the locals \<^verbatim>\<open>a\<close> and \<^verbatim>\<open>b\<close>.
\<close>

datatype generator = Fresh | Suspended int int

definition fibonacci_wait_times :: generator where
  "fibonacci_wait_times = Fresh"

text \<open>
  \<^verbatim>\<open>next(sleep_time_generator)\<close>: from the start, bind \<^verbatim>\<open>a, b = (0, 1)\<close> and yield
  \<^verbatim>\<open>a\<close>; from the yield, run \<^verbatim>\<open>if b <= max_wait_time: (a, b) = (b, a + b)\<close> and yield
  the new \<^verbatim>\<open>a\<close>. The result is the yielded value and the generator as it is left.
\<close>

fun fibonacci_next :: "pyfloat \<Rightarrow> generator \<Rightarrow> int \<times> generator" where
  "fibonacci_next max_wait_time Fresh = (0, Suspended 0 1)"
| "fibonacci_next max_wait_time (Suspended a b) =
     (if int_le_float b max_wait_time then (b, Suspended b (a + b)) else (a, Suspended a b))"

text \<open>The generator after \<open>k\<close> calls of \<^verbatim>\<open>next\<close>, and the value the call number \<open>k\<close>
  (counted from 0) of a new generator yields.\<close>

primrec advance :: "pyfloat \<Rightarrow> nat \<Rightarrow> generator \<Rightarrow> generator" where
  "advance max_wait_time 0 g = g"
| "advance max_wait_time (Suc k) g = advance max_wait_time k (snd (fibonacci_next max_wait_time g))"

definition emitted :: "pyfloat \<Rightarrow> nat \<Rightarrow> int" where
  "emitted max_wait_time k = fst (fibonacci_next max_wait_time (advance max_wait_time k fibonacci_wait_times))"

text \<open>Growth is frozen when the generator is suspended with \<^verbatim>\<open>b <= max_wait_time\<close> false:
  no later \<^verbatim>\<open>next\<close> changes \<^verbatim>\<open>a\<close> or \<^verbatim>\<open>b\<close>.\<close>

fun frozen :: "pyfloat \<Rightarrow> generator \<Rightarrow> bool" where
  "frozen max_wait_time Fresh = False"
| "frozen max_wait_time (Suspended a b) = (\<not> int_le_float b max_wait_time)"

section \<open>Exceptions, the remote assistant and the effects of both scripts\<close>

text \<open>
  A raised exception is a value. \<open>RateLimitError\<close> and \<open>InternalServerError\<close> are the
  two classes the scripts import from \<^verbatim>\<open>anthropic\<close>; the next five are the built-in
  exceptions the scripts' own expressions can raise; \<open>OtherError\<close> is any other class,
  by name.
\<close>

datatype exn =
    RateLimitError | InternalServerError
  | TypeError | KeyError | IndexError | AttributeError | StopIteration
  | OtherError string

text \<open>A reply of the remote assistant: its content blocks, and the reply with its
  \<^verbatim>\<open>stop_reason\<close>. A tool input is a dict from names to strings, as both declared input
  schemas have it; a dict is a list of its items in insertion order.\<close>

datatype block = TextBlock string | ToolUseBlock string string "(string \<times> string) list"

datatype response = Response (stop_reason: string) (content: "block list")

text \<open>A call of \<^verbatim>\<open>client.beta.tools.messages.create\<close> returns a reply or raises. The
  remote assistant is the sequence of these outcomes, one per call, in call order.\<close>

datatype outcome = Reply response | Failure exn

text \<open>
  The effects a claim can observe: how many calls of the remote assistant were made,
  the turn sequence each call sent, and the arguments of \<^verbatim>\<open>time.sleep\<close>, in order.
  Logging and printing are left out. \<open>'t\<close> is the type of a turn.
\<close>

record 't world =
  calls :: nat
  sent :: "'t list list"
  slept :: "int list"

definition sleep :: "int \<Rightarrow> 't world \<Rightarrow> 't world" where
  "sleep secs w = w\<lparr>slept := slept w @ [secs]\<rparr>"

definition create :: "(nat \<Rightarrow> outcome) \<Rightarrow> 't list \<Rightarrow> 't world \<Rightarrow> (exn + response) \<times> 't world" where
  "create remote messages w =
     (case remote (calls w) of Reply r \<Rightarrow> Inr r | Failure e \<Rightarrow> Inl e,
      w\<lparr>calls := Suc (calls w), sent := sent w @ [messages]\<rparr>)"

text \<open>\<^verbatim>\<open>d[k]\<close> on a dict.\<close>

definition getitem :: "(string \<times> 'v) list \<Rightarrow> string \<Rightarrow> exn + 'v" where
  "getitem d k = (case map_of d k of None \<Rightarrow> Inl KeyError | Some v \<Rightarrow> Inr v)"

section \<open>\<^verbatim>\<open>tool_use.py\<close>\<close>

text \<open>The content of a turn: a plain string (the first user turn), a list of
  \<^verbatim>\<open>tool_result\<close> dicts, the content blocks of a reply, or a list of \<^verbatim>\<open>text\<close> dicts
  (the summarizer's user turn). A turn is a dict of a role and a content.\<close>

datatype tool_result = ToolResult string string

datatype payload = Text string | ToolResults "tool_result list" | Blocks "block list" | Parts "string list"

datatype message = Message string payload

definition get_weather :: "string \<Rightarrow> string" where
  "get_weather inp =
     (if sublist ''Northsborough'' inp then ''Did you mean Northborough, MA?''
      else ''It's 70 and sunny in '' @ inp @ ''!'')"

definition get_facts :: "string \<Rightarrow> string" where
  "get_facts inp = ''Here are some facts about '' @ inp @
     '':\<newline>- It is the most sought-after attraction in all of Northsborough, New Hampshire\<newline>- 90% of participants love it!\<newline>- It's purple\<newline>- It is located in Northsborough, which is a small unincorporated area in New Hampshire that may not show up on your maps. It is NOT located in Northborough, MA. Ask locals for directions!''"

definition handle_tool_use :: "string \<Rightarrow> (string \<times> string) list \<Rightarrow> exn + string" where
  "handle_tool_use tool_name inp =
     (if tool_name = ''get_weather'' then
        (case getitem inp ''location'' of Inl e \<Rightarrow> Inl e | Inr location \<Rightarrow> Inr (get_weather location))
      else if tool_name = ''get_facts'' then
        (case getitem inp ''topic'' of Inl e \<Rightarrow> Inl e | Inr topic \<Rightarrow> Inr (get_facts topic))
      else Inr ''n/a'')"

definition ask_claude_tool_use ::
  "(nat \<Rightarrow> outcome) \<Rightarrow> 't \<Rightarrow> 't list \<Rightarrow> 't world \<Rightarrow> (exn + response \<times> 't list) \<times> 't world" where
  "ask_claude_tool_use remote new_message messages w =
     (let new_messages = messages @ [new_message] in
      case create remote new_messages w of
        (Inl e, w1) \<Rightarrow> (Inl e, w1)
      | (Inr response, w1) \<Rightarrow> (Inr (response, new_messages), w1))"

text \<open>
  The \<^verbatim>\<open>try\<close> body of \<^verbatim>\<open>ask_claude_with_retries\<close> is two statements: a \<^verbatim>\<open>raise\<close> of
  \<^verbatim>\<open>RateLimitError("Rate Limit Error",)\<close>, then \<^verbatim>\<open>return ask_claude(new_message, messages)\<close>.
  \<open>raised\<close> is the exception the first statement raises: \<open>RateLimitError\<close>, or whatever
  the constructor of that class raises when called with one argument (the class belongs
  to \<^verbatim>\<open>anthropic\<close>, not to the repository).
\<close>

definition raise_stmt :: "exn \<Rightarrow> 'w \<Rightarrow> (exn + unit) \<times> 'w" where
  "raise_stmt e w = (Inl e, w)"

definition try_body ::
  "exn \<Rightarrow> (nat \<Rightarrow> outcome) \<Rightarrow> 't \<Rightarrow> 't list \<Rightarrow> 't world \<Rightarrow> (exn + response \<times> 't list) \<times> 't world" where
  "try_body raised remote new_message messages w =
     (case raise_stmt raised w of
        (Inl e, w1) \<Rightarrow> (Inl e, w1)
      | (Inr _, w1) \<Rightarrow> ask_claude_tool_use remote new_message messages w1)"

text \<open>The \<^verbatim>\<open>while True\<close> loop: \<open>None\<close> is a loop that never returns.\<close>

partial_function (option) ask_claude_with_retries ::
  "exn \<Rightarrow> (nat \<Rightarrow> outcome) \<Rightarrow> 't \<Rightarrow> 't list \<Rightarrow> 't world \<Rightarrow> ((exn + response \<times> 't list) \<times> 't world) option" where
  "ask_claude_with_retries raised remote new_message messages w =
     (case try_body raised remote new_message messages w of
        (Inr r, w1) \<Rightarrow> Some (Inr r, w1)
      | (Inl e, w1) \<Rightarrow>
          if e = RateLimitError
          then ask_claude_with_retries raised remote new_message messages (sleep 10 w1)
          else Some (Inl e, w1))"

text \<open>The two generator expressions of \<^verbatim>\<open>main\<close> pick the first block of a type;
  \<^verbatim>\<open>next\<close> raises \<^verbatim>\<open>StopIteration\<close> when there is none.\<close>

fun is_text :: "block \<Rightarrow> bool" where
  "is_text (TextBlock t) = True"
| "is_text (ToolUseBlock i n d) = False"

fun is_tool_use :: "block \<Rightarrow> bool" where
  "is_tool_use (TextBlock t) = False"
| "is_tool_use (ToolUseBlock i n d) = True"

text \<open>How one pass through the loop body ends: with the next \<^verbatim>\<open>user_content\<close>, or at
  \<^verbatim>\<open>break\<close> with the reply.\<close>

datatype ctl = Continue payload | Break response

text \<open>The loop body of \<^verbatim>\<open>main\<close> from the test of \<^verbatim>\<open>stop_reason\<close> on.\<close>

definition dispatch_reply :: "response \<Rightarrow> exn + ctl" where
  "dispatch_reply response =
     (if stop_reason response = ''tool_use'' then
        (case (if length (content response) > 1
               then (case find is_text (content response) of
                       None \<Rightarrow> Inl StopIteration
                     | Some thoughts \<Rightarrow> Inr ())
               else Inr ()) of
           Inl e \<Rightarrow> Inl e
         | Inr _ \<Rightarrow>
             (case find is_tool_use (content response) of
                None \<Rightarrow> Inl StopIteration
              | Some (TextBlock t) \<Rightarrow> Inl AttributeError
              | Some (ToolUseBlock tool_use_id tool_name inp) \<Rightarrow>
                  (case handle_tool_use tool_name inp of
                     Inl e \<Rightarrow> Inl e
                   | Inr tool_response \<Rightarrow>
                       Inr (Continue (ToolResults [ToolResult tool_use_id tool_response])))))
      else Inr (Break response))"

text \<open>
  One pass through the loop body. The function that asks the assistant is a parameter,
  so that the body can be studied apart from the retry loop; \<^verbatim>\<open>main\<close> passes
  \<^verbatim>\<open>ask_claude_with_retries\<close>. The result carries the \<^verbatim>\<open>messages\<close> list after the
  \<^verbatim>\<open>append\<close> of the assistant's turn.
\<close>

type_synonym 't asker =
  "'t \<Rightarrow> 't list \<Rightarrow> 't world \<Rightarrow> ((exn + response \<times> 't list) \<times> 't world) option"

definition iteration ::
  "message asker \<Rightarrow> payload \<Rightarrow> message list \<Rightarrow> message world \<Rightarrow>
     ((exn + ctl \<times> message list) \<times> message world) option" where
  "iteration ask user_content messages w =
     (case ask (Message ''user'' user_content) messages w of
        None \<Rightarrow> None
      | Some (Inl e, w1) \<Rightarrow> Some (Inl e, w1)
      | Some (Inr (response, messages1), w1) \<Rightarrow>
          (let messages2 = messages1 @ [Message ''assistant'' (Blocks (content response))] in
           case dispatch_reply response of
             Inl e \<Rightarrow> Some (Inl e, w1)
           | Inr c \<Rightarrow> Some (Inr (c, messages2), w1)))"

partial_function (option) dispatch_loop ::
  "message asker \<Rightarrow> payload \<Rightarrow> message list \<Rightarrow> message world \<Rightarrow>
     ((exn + response) \<times> message world) option" where
  "dispatch_loop ask user_content messages w =
     (case iteration ask user_content messages w of
        None \<Rightarrow> None
      | Some (Inl e, w1) \<Rightarrow> Some (Inl e, w1)
      | Some (Inr (Break response, messages2), w1) \<Rightarrow> Some (Inr response, w1)
      | Some (Inr (Continue user_content2, messages2), w1) \<Rightarrow>
          dispatch_loop ask user_content2 messages2 w1)"

text \<open>The first value of \<^verbatim>\<open>user_content\<close> in \<^verbatim>\<open>main\<close>.\<close>

definition first_user_content :: string where
  "first_user_content = ''I want to go see the Percy Balloon. I generally like things that are orange, but I'm not sure what color it is. I could be persuaded to see something in another color if it's popular enough. The weather also might be awful. Should I go?''"

text \<open>\<^verbatim>\<open>main\<close>: the result is the reply it prints.\<close>

definition main_tool_use ::
  "exn \<Rightarrow> (nat \<Rightarrow> outcome) \<Rightarrow> message world \<Rightarrow> ((exn + response) \<times> message world) option" where
  "main_tool_use raised remote w =
     dispatch_loop (ask_claude_with_retries raised remote) (Text first_user_content) [] w"

text \<open>The state of the loop after \<open>n\<close> passes that all ended at \<^verbatim>\<open>continue\<close>; \<open>None\<close> when
  an earlier pass raised, broke out of the loop or never returned.\<close>

primrec passes ::
  "message asker \<Rightarrow> nat \<Rightarrow> payload \<Rightarrow> message list \<Rightarrow> message world \<Rightarrow>
     (payload \<times> message list \<times> message world) option" where
  "passes ask 0 user_content messages w = Some (user_content, messages, w)"
| "passes ask (Suc n) user_content messages w =
     (case iteration ask user_content messages w of
        Some (Inr (Continue user_content2, messages2), w1) \<Rightarrow> passes ask n user_content2 messages2 w1
      | _ \<Rightarrow> None)"

section \<open>\<^verbatim>\<open>youtube_summarizer.py\<close>\<close>

text \<open>
  The retry decorator wraps any function, so the arguments of a call are Python values:
  a string, a turn, or a list of values. A function receives its positional arguments
  and its keyword arguments (a dict, as the list of its items).
\<close>

datatype pyarg = Str string | Turn message | Seq "pyarg list"

type_synonym ('t, 'r) pyfunc =
  "pyarg list \<Rightarrow> (string \<times> pyarg) list \<Rightarrow> 't world \<Rightarrow> (exn + 'r) \<times> 't world"

text \<open>
  The \<^verbatim>\<open>while True\<close> loop of \<^verbatim>\<open>wrapper\<close>, from a state of \<^verbatim>\<open>sleep_time_generator\<close>. The
  call is \<^verbatim>\<open>func(*args, *kwargs)\<close>: the positional arguments, then the keys of
  \<^verbatim>\<open>kwargs\<close> as further positional arguments, and no keyword argument.
\<close>

partial_function (option) retry_loop ::
  "pyfloat \<Rightarrow> ('t, 'r) pyfunc \<Rightarrow> pyarg list \<Rightarrow> (string \<times> pyarg) list \<Rightarrow> generator \<Rightarrow> 't world \<Rightarrow>
     ((exn + 'r) \<times> 't world) option" where
  "retry_loop max_wait_time func args kwargs sleep_time_generator w =
     (case func (args @ map (\<lambda>item. Str (fst item)) kwargs) [] w of
        (Inr r, w1) \<Rightarrow> Some (Inr r, w1)
      | (Inl e, w1) \<Rightarrow>
          if e = RateLimitError then
            (case fibonacci_next max_wait_time sleep_time_generator of
               (sleep_time, g) \<Rightarrow>
                 retry_loop max_wait_time func args kwargs g (sleep sleep_time w1))
          else if e = InternalServerError then
            (case fibonacci_next max_wait_time sleep_time_generator of
               (sleep_time, g) \<Rightarrow>
                 retry_loop max_wait_time func args kwargs g (sleep (sleep_time + 30) w1))
          else Some (Inl e, w1))"

definition wrapper ::
  "pyfloat \<Rightarrow> ('t, 'r) pyfunc \<Rightarrow> pyarg list \<Rightarrow> (string \<times> pyarg) list \<Rightarrow> 't world \<Rightarrow>
     ((exn + 'r) \<times> 't world) option" where
  "wrapper max_wait_time func args kwargs w =
     retry_loop max_wait_time func args kwargs fibonacci_wait_times w"

text \<open>The body of the summarizer's \<^verbatim>\<open>ask_claude\<close>. \<^verbatim>\<open>messages + [new_message]\<close> raises
  \<^verbatim>\<open>TypeError\<close> unless \<^verbatim>\<open>messages\<close> is a list.\<close>

definition ask_claude_summarizer ::
  "(nat \<Rightarrow> outcome) \<Rightarrow> pyarg \<Rightarrow> pyarg \<Rightarrow> pyarg world \<Rightarrow> (exn + response \<times> pyarg list) \<times> pyarg world" where
  "ask_claude_summarizer remote new_message messages w =
     (case messages of
        Seq ms \<Rightarrow>
          (let new_messages = ms @ [new_message] in
           case create remote new_messages w of
             (Inl e, w1) \<Rightarrow> (Inl e, w1)
           | (Inr response, w1) \<Rightarrow> (Inr (response, new_messages), w1))
      | Str s \<Rightarrow> (Inl TypeError, w)
      | Turn m \<Rightarrow> (Inl TypeError, w))"

text \<open>
  How Python binds the arguments of a call to the parameters of
  \<^verbatim>\<open>def ask_claude(new_message, messages: list = [])\<close>: a \<^verbatim>\<open>TypeError\<close> for more than
  two positional arguments, for a keyword that is not a parameter, for a parameter
  given twice, and for a missing \<^verbatim>\<open>new_message\<close>. Nothing mutates the default list.
\<close>

definition bind_ask_claude :: "pyarg list \<Rightarrow> (string \<times> pyarg) list \<Rightarrow> exn + pyarg \<times> pyarg" where
  "bind_ask_claude args kwargs =
     (if 2 < length args then Inl TypeError
      else if list_ex (\<lambda>item. \<not> (fst item = ''new_message'' \<or> fst item = ''messages'')) kwargs
        then Inl TypeError
      else if 1 \<le> length args \<and> map_of kwargs ''new_message'' \<noteq> None then Inl TypeError
      else if 2 \<le> length args \<and> map_of kwargs ''messages'' \<noteq> None then Inl TypeError
      else
        (case (case args of [] \<Rightarrow> map_of kwargs ''new_message'' | a # rest \<Rightarrow> Some a) of
           None \<Rightarrow> Inl TypeError
         | Some new_message \<Rightarrow>
             Inr (new_message,
                  case args of
                    [a, m] \<Rightarrow> m
                  | _ \<Rightarrow> (case map_of kwargs ''messages'' of None \<Rightarrow> Seq [] | Some m \<Rightarrow> m))))"

text \<open>The undecorated \<^verbatim>\<open>ask_claude\<close> as a Python function, and the decorated one:
  \<^verbatim>\<open>@with_retries(max_wait_time=60)\<close>.\<close>

definition ask_claude_func :: "(nat \<Rightarrow> outcome) \<Rightarrow> (pyarg, response \<times> pyarg list) pyfunc" where
  "ask_claude_func remote args kwargs w =
     (case bind_ask_claude args kwargs of
        Inl e \<Rightarrow> (Inl e, w)
      | Inr (new_message, messages) \<Rightarrow> ask_claude_summarizer remote new_message messages w)"

definition ask_claude_decorated ::
  "(nat \<Rightarrow> outcome) \<Rightarrow> pyarg list \<Rightarrow> (string \<times> pyarg) list \<Rightarrow> pyarg world \<Rightarrow>
     ((exn + response \<times> pyarg list) \<times> pyarg world) option" where
  "ask_claude_decorated remote = wrapper (Finite 60) (ask_claude_func remote)"

text \<open>
  The caption source is outside the repository: \<open>extract_info\<close> gives
  \<^verbatim>\<open>res["requested_subtitles"]\<close> for a video URL (\<open>None\<close> is Python's \<^verbatim>\<open>None\<close>; otherwise a
  dict from a language to the dict of a track), or raises; \<open>http_get\<close> gives the text of
  a URL, or raises. An empty dict and an empty string are falsy.
\<close>

type_synonym subtitles = "(string \<times> (string \<times> string) list) list"

definition download_captions ::
  "(string \<Rightarrow> exn + subtitles option) \<Rightarrow> (string \<Rightarrow> exn + string) \<Rightarrow> string \<Rightarrow> exn + string option" where
  "download_captions extract_info http_get video_url =
     (case extract_info video_url of
        Inl e \<Rightarrow> Inl e
      | Inr None \<Rightarrow> Inr None
      | Inr (Some requested_subtitles) \<Rightarrow>
          if requested_subtitles = [] then Inr None
          else
            (case getitem requested_subtitles ''en'' of
               Inl e \<Rightarrow> Inl e
             | Inr en \<Rightarrow>
                 if en = [] then Inr None
                 else
                   (case getitem en ''url'' of
                      Inl e \<Rightarrow> Inl e
                    | Inr url \<Rightarrow>
                        (case http_get url of
                           Inl e \<Rightarrow> Inl e
                         | Inr response_text \<Rightarrow> Inr (Some response_text)))))"

text \<open>\<^verbatim>\<open>main(video_url)\<close>: the result is the text it prints, \<open>None\<close> when it returns before
  printing. \<^verbatim>\<open>response.content[0].text\<close> raises on an empty content and on a block with no
  text.\<close>

definition main_summarizer ::
  "(string \<Rightarrow> exn + subtitles option) \<Rightarrow> (string \<Rightarrow> exn + string) \<Rightarrow> (nat \<Rightarrow> outcome) \<Rightarrow> string \<Rightarrow>
     pyarg world \<Rightarrow> ((exn + string option) \<times> pyarg world) option" where
  "main_summarizer extract_info http_get remote video_url w =
     (case download_captions extract_info http_get video_url of
        Inl e \<Rightarrow> Some (Inl e, w)
      | Inr None \<Rightarrow> Some (Inr None, w)
      | Inr (Some captions) \<Rightarrow>
          if captions = [] then Some (Inr None, w)
          else
            (case ask_claude_decorated remote
                    [Turn (Message ''user'' (Parts [captions, ''Can you summarize the video?'']))] [] w of
               None \<Rightarrow> None
             | Some (Inl e, w1) \<Rightarrow> Some (Inl e, w1)
             | Some (Inr (response, new_messages), w1) \<Rightarrow>
                 (case content response of
                    [] \<Rightarrow> Some (Inl IndexError, w1)
                  | TextBlock t # rest \<Rightarrow> Some (Inr (Some t), w1)
                  | ToolUseBlock i n d # rest \<Rightarrow> Some (Inl AttributeError, w1))))"

text \<open>The caption source reports no English captions: the test of
  \<^verbatim>\<open>download_captions\<close> fails, on \<^verbatim>\<open>None\<close>, on an empty dict, or on an empty English
  track.\<close>

definition no_english_captions :: "subtitles option \<Rightarrow> bool" where
  "no_english_captions requested =
     (case requested of
        None \<Rightarrow> True
      | Some requested_subtitles \<Rightarrow>
          requested_subtitles = [] \<or> map_of requested_subtitles ''en'' = Some [])"

section \<open>The contract of a function that asks the assistant\<close>

text \<open>
  What \<^verbatim>\<open>main\<close> of \<^verbatim>\<open>tool_use.py\<close> relies on when it rebinds \<^verbatim>\<open>messages\<close> to the list
  the asking function returns: whenever the function returns or raises, every turn
  sequence it sent is \<^verbatim>\<open>messages + [new_message]\<close>, and the list it returns is that
  sequence.
\<close>

definition appends_only :: "'t asker \<Rightarrow> bool" where
  "appends_only ask =
     (\<forall>new_message messages w res w1.
        ask new_message messages w = Some (res, w1) \<longrightarrow>
          (\<exists>k. sent w1 = sent w @ replicate k (messages @ [new_message]))
          \<and> (\<forall>r messages1. res = Inr (r, messages1) \<longrightarrow> messages1 = messages @ [new_message]))"

text \<open>The equations of the three loops are code equations, so that a run can be
  evaluated.\<close>

declare ask_claude_with_retries.simps [code]

declare dispatch_loop.simps [code]

declare retry_loop.simps [code]

section \<open>The backoff sequence\<close>

lemma advance_Suc_end:
  "advance m (Suc k) g = snd (fibonacci_next m (advance m k g))"
  by (induction k arbitrary: g) simp_all

lemma advance_add: "advance m (j + k) g = advance m j (advance m k g)"
  by (induction k arbitrary: g) simp_all

text \<open>After its first \<^verbatim>\<open>next\<close> the generator is suspended with \<open>0 \<le> a \<le> b\<close>.\<close>

lemma advance_shape:
  "\<exists>a b. advance m (Suc k) Fresh = Suspended a b \<and> 0 \<le> a \<and> a \<le> b"
proof (induction k)
  case 0
  show ?case by simp
next
  case (Suc k)
  then obtain a b where s: "advance m (Suc k) Fresh = Suspended a b" "0 \<le> a" "a \<le> b"
    by blast
  have "advance m (Suc (Suc k)) Fresh = snd (fibonacci_next m (Suspended a b))"
    using s(1) advance_Suc_end[of m "Suc k" Fresh] by simp
  with s show ?case by auto
qed

text \<open>The value a \<^verbatim>\<open>next\<close> yields is the \<^verbatim>\<open>a\<close> it leaves behind.\<close>

lemma emitted_eq: "advance m (Suc k) Fresh = Suspended a b \<Longrightarrow> emitted m k = a"
  unfolding emitted_def fibonacci_wait_times_def advance_Suc_end
  by (cases "advance m k Fresh") (auto split: if_splits)

lemma emitted_Suc:
  "advance m (Suc k) Fresh = Suspended a b \<Longrightarrow>
   emitted m (Suc k) = (if int_le_float b m then b else a)"
  unfolding emitted_def fibonacci_wait_times_def by simp

lemma advance_within:
  "int_le_float 0 m \<Longrightarrow> advance m (Suc k) Fresh = Suspended a b \<Longrightarrow> int_le_float a m"
proof (induction k arbitrary: a b)
  case 0
  then show ?case by simp
next
  case (Suc k)
  obtain a' b' where s: "advance m (Suc k) Fresh = Suspended a' b'"
    using advance_shape by blast
  have "advance m (Suc (Suc k)) Fresh = snd (fibonacci_next m (Suspended a' b'))"
    using s advance_Suc_end[of m "Suc k" Fresh] by simp
  with Suc.prems(2) Suc.IH[OF Suc.prems(1) s] show ?case
    by (auto split: if_splits)
qed

text \<open>With a ceiling of at least 0, no yielded value is above the ceiling: \<^verbatim>\<open>a\<close> only
  ever takes a value of \<^verbatim>\<open>b\<close> that passed the test \<^verbatim>\<open>b <= max_wait_time\<close>.\<close>

lemma emitted_within: "int_le_float 0 m \<Longrightarrow> int_le_float (emitted m k) m"
proof -
  assume z: "int_le_float 0 m"
  obtain a b where s: "advance m (Suc k) Fresh = Suspended a b"
    using advance_shape by blast
  show ?thesis using advance_within[OF z s] emitted_eq[OF s] by simp
qed

lemma frozen_stays: "frozen m g \<Longrightarrow> advance m j g = g"
  by (induction j) (cases g; simp)+

lemma frozen_emitted:
  assumes "frozen m (advance m (Suc k) Fresh)"
  shows "emitted m (k + j) = emitted m k"
proof -
  obtain a b where s: "advance m (Suc k) Fresh = Suspended a b"
    using advance_shape by blast
  have "advance m (Suc (k + j)) Fresh = advance m j (advance m (Suc k) Fresh)"
    using advance_add[of m j "Suc k" Fresh] by (simp add: add.commute)
  then have "advance m (Suc (k + j)) Fresh = Suspended a b"
    using frozen_stays[OF assms] s by simp
  then show ?thesis using emitted_eq s by simp
qed

lemma advance_60: "advance (Finite 60) 11 Fresh = Suspended 55 89"
  by (simp add: eval_nat_numeral)

text \<open>
  C1, as the code has it. Once growth is frozen (the generator is suspended with
  \<^verbatim>\<open>b\<close> above the ceiling), every later \<^verbatim>\<open>next\<close> yields the value the freezing one
  yielded, and for a ceiling of at least 0 that value is at most the ceiling. What is
  above the ceiling is \<^verbatim>\<open>b\<close>, which a frozen generator never yields.
\<close>

theorem frozen_waits_within_ceiling:
  assumes "int_le_float 0 max_wait_time"
    and "frozen max_wait_time (advance max_wait_time (Suc k) fibonacci_wait_times)"
  shows "emitted max_wait_time (k + j) = emitted max_wait_time k
       \<and> int_le_float (emitted max_wait_time (k + j)) max_wait_time"
  using assms frozen_emitted[of max_wait_time k j] emitted_within[of max_wait_time "k + j"]
  by (simp add: fibonacci_wait_times_def)

theorem frozen_waits_within_ceiling_witness:
  "int_le_float 0 (Finite 60)
   \<and> frozen (Finite 60) (advance (Finite 60) (Suc 10) fibonacci_wait_times)
   \<and> emitted (Finite 60) (10 + 3) = emitted (Finite 60) 10
   \<and> int_le_float (emitted (Finite 60) (10 + 3)) (Finite 60)
   \<and> emitted (Finite 60) 10 = 55"
proof -
  have z: "int_le_float 0 (Finite 60)" by simp
  have s: "advance (Finite 60) (Suc 10) fibonacci_wait_times = Suspended 55 89"
    using advance_60 by (simp add: fibonacci_wait_times_def)
  have f: "frozen (Finite 60) (advance (Finite 60) (Suc 10) fibonacci_wait_times)"
    unfolding s by simp
  have e: "emitted (Finite 60) 10 = 55"
    using s emitted_eq[of "Finite 60" 10 55 89] by (simp add: fibonacci_wait_times_def)
  show ?thesis
    using z f e frozen_waits_within_ceiling[OF z f, of 3] by simp
qed

text \<open>
  C1, as stated, fails at the ceiling the repository configures, 60: the generator
  freezes at its eleventh \<^verbatim>\<open>next\<close> with \<^verbatim>\<open>a = 55\<close> and \<^verbatim>\<open>b = 89\<close>, and no value it yields
  from then on is above 60.
\<close>

theorem ceiling_60_never_exceeded:
  "frozen (Finite 60) (advance (Finite 60) (Suc 10) fibonacci_wait_times)
   \<and> \<not> (\<exists>j. 10 \<le> j \<and> 60 < real_of_int (emitted (Finite 60) j))"
proof -
  have s: "advance (Finite 60) (Suc 10) fibonacci_wait_times = Suspended 55 89"
    using advance_60 by (simp add: fibonacci_wait_times_def)
  have "real_of_int (emitted (Finite 60) j) \<le> 60" for j
    using emitted_within[of "Finite 60" j] by simp
  then have "\<not> (\<exists>j. 10 \<le> j \<and> 60 < real_of_int (emitted (Finite 60) j))"
    by (simp add: not_less)
  moreover have "frozen (Finite 60) (advance (Finite 60) (Suc 10) fibonacci_wait_times)"
    unfolding s by simp
  ultimately show ?thesis by blast
qed

text \<open>
  C3. For every ceiling, every yielded wait is at least 0, and each is at most the next
  one: the sequence is non-decreasing up to the freeze, and constant after it.
\<close>

theorem waits_nonnegative_nondecreasing:
  "0 \<le> emitted max_wait_time k \<and> emitted max_wait_time k \<le> emitted max_wait_time (Suc k)"
proof -
  obtain a b where s: "advance max_wait_time (Suc k) Fresh = Suspended a b" "0 \<le> a" "a \<le> b"
    using advance_shape by blast
  show ?thesis using s by (simp add: emitted_eq[OF s(1)] emitted_Suc[OF s(1)])
qed

section \<open>The tool demo's retry loop and \<^verbatim>\<open>main\<close>\<close>

lemma try_body_raises: "try_body raised remote nm ms w = (Inl raised, w)"
  by (simp add: try_body_def raise_stmt_def)

lemma retries_no_return:
  "ask_claude_with_retries raised remote nm ms w = Some y \<Longrightarrow> raised \<noteq> RateLimitError"
proof (induction rule: ask_claude_with_retries.raw_induct[rotated 1, consumes 1])
  case (1 f raised remote nm ms w y)
  then show ?case by (auto simp: try_body_raises split: if_splits)
qed

text \<open>The retry loop never reaches its \<^verbatim>\<open>return\<close>: it sleeps forever when the \<^verbatim>\<open>raise\<close>
  raises \<^verbatim>\<open>RateLimitError\<close>, and lets any other exception through at once.\<close>

lemma retries_result:
  "ask_claude_with_retries raised remote nm ms w =
     (if raised = RateLimitError then None else Some (Inl raised, w))"
proof (cases "raised = RateLimitError")
  case True
  have "ask_claude_with_retries raised remote nm ms w = None"
  proof (cases "ask_claude_with_retries raised remote nm ms w")
    case None
    then show ?thesis .
  next
    case (Some y)
    from retries_no_return[OF Some] True show ?thesis by simp
  qed
  with True show ?thesis by simp
next
  case False
  then show ?thesis
    by (subst ask_claude_with_retries.simps) (simp add: try_body_raises)
qed

lemma ask_claude_tool_use_reply:
  "ask_claude_tool_use (\<lambda>n. Reply r) nm ms w =
     (Inr (r, ms @ [nm]), w\<lparr>calls := Suc (calls w), sent := sent w @ [ms @ [nm]]\<rparr>)"
  by (simp add: ask_claude_tool_use_def create_def Let_def)

text \<open>
  C2 fails on \<^verbatim>\<open>ask_claude_with_retries\<close> of \<^verbatim>\<open>tool_use.py\<close>. With a remote assistant that
  answers every call, the work \<^verbatim>\<open>ask_claude(new_message, messages)\<close> succeeds, but the
  wrapper never executes it and never returns its result: it does not return at all
  (\<^verbatim>\<open>RateLimitError\<close> raised and caught on every pass), or it raises what the \<^verbatim>\<open>raise\<close>
  statement raised, in the world it was called in.
\<close>

theorem ask_claude_with_retries_never_asks:
  "fst (ask_claude_tool_use (\<lambda>n. Reply r) new_message messages w) = Inr (r, messages @ [new_message])
   \<and> ask_claude_with_retries raised (\<lambda>n. Reply r) new_message messages w =
       (if raised = RateLimitError then None else Some (Inl raised, w))"
  by (simp add: ask_claude_tool_use_reply retries_result)

text \<open>With that retry loop, a pass through the body of \<^verbatim>\<open>main\<close> gets no reply.\<close>

lemma iteration_retries:
  "iteration (ask_claude_with_retries raised remote) uc ms w =
     (if raised = RateLimitError then None else Some (Inl raised, w))"
  by (simp add: iteration_def retries_result)

text \<open>
  C6 fails on \<^verbatim>\<open>main\<close> of \<^verbatim>\<open>tool_use.py\<close>, by the same \<^verbatim>\<open>raise\<close>. With a remote assistant
  whose every reply has the stop condition \<^verbatim>\<open>end_turn\<close>, \<^verbatim>\<open>main\<close> returns no reply: it
  never returns, or it raises in its first pass.
\<close>

theorem main_tool_use_returns_no_reply:
  "main_tool_use raised (\<lambda>n. Reply (Response ''end_turn'' [TextBlock t])) w =
     (if raised = RateLimitError then None else Some (Inl raised, w))"
  unfolding main_tool_use_def
  by (subst dispatch_loop.simps) (simp add: iteration_retries)

text \<open>The loop itself does end, for any asking function that returns: after passes that
  end at \<^verbatim>\<open>continue\<close>, a pass that ends at \<^verbatim>\<open>break\<close> makes the loop return that reply.\<close>

lemma dispatch_loop_breaks_after_passes:
  "passes ask n uc ms w = Some (uc2, ms2, w2) \<Longrightarrow>
   iteration ask uc2 ms2 w2 = Some (Inr (Break r, ms3), w3) \<Longrightarrow>
   dispatch_loop ask uc ms w = Some (Inr r, w3)"
proof (induction n arbitrary: uc ms w)
  case 0
  then show ?case by (subst dispatch_loop.simps) simp
next
  case (Suc n)
  show ?case
  proof (cases "iteration ask uc ms w")
    case None
    with Suc.prems(1) show ?thesis by simp
  next
    case (Some res)
    obtain x w1 where res: "res = (x, w1)" by (cases res)
    show ?thesis
    proof (cases x)
      case (Inl e)
      with Suc.prems(1) Some res show ?thesis by simp
    next
      case (Inr p)
      obtain c ms1 where p: "p = (c, ms1)" by (cases p)
      show ?thesis
      proof (cases c)
        case (Continue uc1)
        with Suc.prems(1) Some res Inr p have "passes ask n uc1 ms1 w1 = Some (uc2, ms2, w2)"
          by simp
        from Suc.IH[OF this Suc.prems(2)] Some res Inr p Continue show ?thesis
          by (subst dispatch_loop.simps) simp
      next
        case (Break r')
        with Suc.prems(1) Some res Inr p show ?thesis by simp
      qed
    qed
  qed
qed

section \<open>Dispatch of a capability request\<close>

lemma handle_tool_use_fallback:
  "n \<noteq> ''get_weather'' \<Longrightarrow> n \<noteq> ''get_facts'' \<Longrightarrow> handle_tool_use n inp = Inr ''n/a''"
  by (simp add: handle_tool_use_def)

lemma dispatch_reply_fallback:
  assumes "find is_tool_use blocks = Some (ToolUseBlock tid n inp)"
    and "n \<noteq> ''get_weather''" and "n \<noteq> ''get_facts''"
    and "length blocks \<le> 1 \<or> find is_text blocks \<noteq> None"
  shows "dispatch_reply (Response ''tool_use'' blocks) =
           Inr (Continue (ToolResults [ToolResult tid ''n/a'']))"
  using assms by (auto simp: dispatch_reply_def handle_tool_use_fallback split: option.splits)

text \<open>
  A reply with the stop condition \<^verbatim>\<open>tool_use\<close> that has at most one content block or
  holds a text block, and whose first \<^verbatim>\<open>tool_use\<close> block names a capability other than
  \<^verbatim>\<open>get_weather\<close> and \<^verbatim>\<open>get_facts\<close>: the handler returns \<^verbatim>\<open>"n/a"\<close>, the pass ends at
  \<^verbatim>\<open>continue\<close> with that string as the tool result, and the loop goes on from the next
  pass, with the assistant's turn appended.
\<close>

lemma fallback_pass_continues:
  assumes "find is_tool_use blocks = Some (ToolUseBlock tool_use_id tool_name inp)"
    and "tool_name \<noteq> ''get_weather''" and "tool_name \<noteq> ''get_facts''"
    and "length blocks \<le> 1 \<or> find is_text blocks \<noteq> None"
    and "ask (Message ''user'' user_content) messages w =
           Some (Inr (Response ''tool_use'' blocks, messages1), w1)"
  shows "iteration ask user_content messages w =
           Some (Inr (Continue (ToolResults [ToolResult tool_use_id ''n/a'']),
                      messages1 @ [Message ''assistant'' (Blocks blocks)]), w1)
       \<and> dispatch_loop ask user_content messages w =
           dispatch_loop ask (ToolResults [ToolResult tool_use_id ''n/a''])
             (messages1 @ [Message ''assistant'' (Blocks blocks)]) w1"
proof -
  have d: "dispatch_reply (Response ''tool_use'' blocks) =
             Inr (Continue (ToolResults [ToolResult tool_use_id ''n/a'']))"
    using assms(1-4) by (rule dispatch_reply_fallback)
  have i: "iteration ask user_content messages w =
          Some (Inr (Continue (ToolResults [ToolResult tool_use_id ''n/a'']),
                     messages1 @ [Message ''assistant'' (Blocks blocks)]), w1)"
    using assms(5) d by (simp add: iteration_def)
  then have "dispatch_loop ask user_content messages w =
           dispatch_loop ask (ToolResults [ToolResult tool_use_id ''n/a''])
             (messages1 @ [Message ''assistant'' (Blocks blocks)]) w1"
    by (subst dispatch_loop.simps) simp
  with i show ?thesis by simp
qed

text \<open>
  A reply of more than one block with no text block makes the pass raise
  \<^verbatim>\<open>StopIteration\<close> at the search for the text block, whatever its \<^verbatim>\<open>tool_use\<close> blocks
  name: the handler is not called.
\<close>

lemma dispatch_reply_without_text:
  assumes "1 < length blocks" and "find is_text blocks = None"
  shows "dispatch_reply (Response ''tool_use'' blocks) = Inl StopIteration"
  using assms by (simp add: dispatch_reply_def)

text \<open>
  C4 fails on \<^verbatim>\<open>main\<close> of \<^verbatim>\<open>tool_use.py\<close>, for a reply that asks for two capabilities and
  holds no text block. The handler does return \<^verbatim>\<open>"n/a"\<close> for the unregistered name
  \<^verbatim>\<open>get_time\<close>, but the loop body never calls it: the pass raises \<^verbatim>\<open>StopIteration\<close>, as it
  does when both names are registered. And \<^verbatim>\<open>main\<close> as it is written does not even get
  the reply: with the \<^verbatim>\<open>raise\<close> in \<^verbatim>\<open>ask_claude_with_retries\<close> it never returns, or raises
  in its first pass, in the world it started in.
\<close>

theorem unknown_capability_request_unanswered:
  "handle_tool_use ''get_time'' [] = Inr ''n/a''
   \<and> dispatch_reply (Response ''tool_use''
         [ToolUseBlock ''toolu_1'' ''get_time'' [], ToolUseBlock ''toolu_2'' ''get_time'' []])
       = Inl StopIteration
   \<and> dispatch_reply (Response ''tool_use''
         [ToolUseBlock ''toolu_1'' ''get_weather'' [(''location'', ''Boston, MA'')],
          ToolUseBlock ''toolu_2'' ''get_facts'' [(''topic'', ''Percy Balloon'')]])
       = Inl StopIteration
   \<and> main_tool_use raised
         (\<lambda>n. Reply (Response ''tool_use''
            [ToolUseBlock ''toolu_1'' ''get_time'' [], ToolUseBlock ''toolu_2'' ''get_time'' []])) w
       = (if raised = RateLimitError then None else Some (Inl raised, w))"
proof -
  have a: "handle_tool_use ''get_time'' [] = Inr ''n/a''"
    by (simp add: handle_tool_use_def)
  have b: "dispatch_reply (Response ''tool_use''
         [ToolUseBlock ''toolu_1'' ''get_time'' [], ToolUseBlock ''toolu_2'' ''get_time'' []])
       = Inl StopIteration"
    by (rule dispatch_reply_without_text) simp_all
  have c: "dispatch_reply (Response ''tool_use''
         [ToolUseBlock ''toolu_1'' ''get_weather'' [(''location'', ''Boston, MA'')],
          ToolUseBlock ''toolu_2'' ''get_facts'' [(''topic'', ''Percy Balloon'')]])
       = Inl StopIteration"
    by (rule dispatch_reply_without_text) simp_all
  have d: "main_tool_use raised
         (\<lambda>n. Reply (Response ''tool_use''
            [ToolUseBlock ''toolu_1'' ''get_time'' [], ToolUseBlock ''toolu_2'' ''get_time'' []])) w
       = (if raised = RateLimitError then None else Some (Inl raised, w))"
    unfolding main_tool_use_def
    by (subst dispatch_loop.simps) (simp add: iteration_retries)
  show ?thesis by (intro conjI a b c d)
qed

section \<open>The turn sequence\<close>

lemma ask_claude_tool_use_sent:
  "sent (snd (ask_claude_tool_use remote nm ms w)) = sent w @ [ms @ [nm]]"
  by (simp add: ask_claude_tool_use_def create_def Let_def split: outcome.splits)

lemma ask_claude_tool_use_returned:
  "fst (ask_claude_tool_use remote nm ms w) = Inr (r, ms1) \<Longrightarrow> ms1 = ms @ [nm]"
  by (auto simp: ask_claude_tool_use_def create_def Let_def split: outcome.splits)

lemma ask_claude_summarizer_sent:
  "sent (snd (ask_claude_summarizer remote nm (Seq ms) w)) = sent w @ [ms @ [nm]]"
  by (simp add: ask_claude_summarizer_def create_def Let_def split: outcome.splits)

lemma ask_claude_summarizer_returned:
  "fst (ask_claude_summarizer remote nm (Seq ms) w) = Inr (r, ms1) \<Longrightarrow> ms1 = ms @ [nm]"
  by (auto simp: ask_claude_summarizer_def create_def Let_def split: outcome.splits)

text \<open>Both functions that can ask for \<^verbatim>\<open>main\<close> keep the contract: \<^verbatim>\<open>ask_claude\<close>, with
  one call of the assistant, and \<^verbatim>\<open>ask_claude_with_retries\<close>, which makes none.\<close>

lemma appends_only_ask_claude:
  "appends_only (\<lambda>nm ms w. Some (ask_claude_tool_use remote nm ms w))"
  unfolding appends_only_def
proof (intro allI impI conjI)
  fix nm :: 'a and ms w res w1
  assume a: "Some (ask_claude_tool_use remote nm ms w) = Some (res, w1)"
  then have "sent w1 = sent w @ replicate 1 (ms @ [nm])"
    using ask_claude_tool_use_sent[of remote nm ms w] by simp
  then show "\<exists>k. sent w1 = sent w @ replicate k (ms @ [nm])" by (rule exI)
  fix r ms1
  assume "res = Inr (r, ms1)"
  with a show "ms1 = ms @ [nm]"
    using ask_claude_tool_use_returned[of remote nm ms w r ms1] by simp
qed

lemma appends_only_retries: "appends_only (ask_claude_with_retries raised remote)"
  unfolding appends_only_def
proof (intro allI impI conjI)
  fix nm :: 'a and ms w res w1
  assume a: "ask_claude_with_retries raised remote nm ms w = Some (res, w1)"
  then have e: "w1 = w" "res = Inl raised"
    by (simp_all add: retries_result split: if_splits)
  then have "sent w1 = sent w @ replicate 0 (ms @ [nm])" by simp
  then show "\<exists>k. sent w1 = sent w @ replicate k (ms @ [nm])" by (rule exI)
  fix r ms1
  assume "res = Inr (r, ms1)"
  with e(2) show "ms1 = ms @ [nm]" by simp
qed

lemma iteration_continue:
  assumes "appends_only ask"
    and "iteration ask uc ms w = Some (Inr (c, ms2), w1)"
  shows "\<exists>k r. sent w1 = sent w @ replicate k (ms @ [Message ''user'' uc])
          \<and> ms2 = ms @ [Message ''user'' uc, Message ''assistant'' (Blocks (content r))]"
proof -
  from assms(2) obtain r ms1 where
    a: "ask (Message ''user'' uc) ms w = Some (Inr (r, ms1), w1)"
    and m: "ms2 = ms1 @ [Message ''assistant'' (Blocks (content r))]"
    by (auto simp: iteration_def Let_def split: option.splits sum.splits prod.splits)
  from assms(1) a have "\<exists>k. sent w1 = sent w @ replicate k (ms @ [Message ''user'' uc])"
    and "ms1 = ms @ [Message ''user'' uc]"
    unfolding appends_only_def by blast+
  with m show ?thesis by auto
qed

lemma chain_step:
  assumes "prefix ms m1" and "prefix m1 ms2" and "sorted_wrt prefix (ms2 # rest)"
  shows "sorted_wrt prefix (ms # replicate k m1 @ rest)"
proof -
  have all: "\<And>y. y \<in> set rest \<Longrightarrow> prefix ms2 y" using assms(3) by simp
  have r: "sorted_wrt prefix rest" using assms(3) by simp
  have a1: "\<And>y. y \<in> set rest \<Longrightarrow> prefix m1 y"
    using all assms(2) prefix_order.trans by blast
  have a0: "\<And>y. y \<in> set rest \<Longrightarrow> prefix ms y"
    using a1 assms(1) prefix_order.trans by blast
  have "sorted_wrt prefix (replicate k m1)"
    by (induction k) simp_all
  then have "sorted_wrt prefix (replicate k m1 @ rest)"
    using a1 r by (simp add: sorted_wrt_append)
  moreover have "\<And>y. y \<in> set (replicate k m1 @ rest) \<Longrightarrow> prefix ms y"
    using a0 assms(1) by auto
  ultimately show ?thesis by simp
qed

lemma passes_Suc_Some:
  assumes "passes ask (Suc n) uc ms w = Some st"
  shows "\<exists>uc2 ms2 w1. iteration ask uc ms w = Some (Inr (Continue uc2, ms2), w1)
           \<and> passes ask n uc2 ms2 w1 = Some st"
proof (cases "iteration ask uc ms w")
  case None
  with assms show ?thesis by simp
next
  case (Some res)
  obtain x w1 where res: "res = (x, w1)" by (cases res)
  show ?thesis
  proof (cases x)
    case (Inl e)
    with assms Some res show ?thesis by simp
  next
    case (Inr p)
    obtain c ms2 where p: "p = (c, ms2)" by (cases p)
    show ?thesis
    proof (cases c)
      case (Continue uc2)
      with assms Some res Inr p show ?thesis by simp
    next
      case (Break r)
      with assms Some res Inr p show ?thesis by simp
    qed
  qed
qed

lemma passes_chain:
  assumes "appends_only ask"
  shows "passes ask n uc ms w = Some (uc', ms', w') \<Longrightarrow>
         \<exists>new. sent w' = sent w @ new \<and> sorted_wrt prefix (ms # new @ [ms'])"
proof (induction n arbitrary: uc ms w)
  case 0
  then show ?case by simp
next
  case (Suc n)
  from passes_Suc_Some[OF Suc.prems] obtain uc2 ms2 w1 where
    it: "iteration ask uc ms w = Some (Inr (Continue uc2, ms2), w1)"
    and rest: "passes ask n uc2 ms2 w1 = Some (uc', ms', w')"
    by blast
  from iteration_continue[OF assms it] obtain k r where
    s: "sent w1 = sent w @ replicate k (ms @ [Message ''user'' uc])"
    and m: "ms2 = ms @ [Message ''user'' uc, Message ''assistant'' (Blocks (content r))]"
    by blast
  from Suc.IH[OF rest] obtain new where
    n: "sent w' = sent w1 @ new" and c: "sorted_wrt prefix (ms2 # new @ [ms'])"
    by blast
  have "sorted_wrt prefix (ms # replicate k (ms @ [Message ''user'' uc]) @ (new @ [ms']))"
    by (rule chain_step[OF _ _ c]) (simp_all add: m)
  moreover have "sent w' = sent w @ (replicate k (ms @ [Message ''user'' uc]) @ new)"
    using s n by simp
  ultimately show ?case
    by (intro exI[of _ "replicate k (ms @ [Message ''user'' uc]) @ new"]) simp
qed

text \<open>
  C5. Take any number of passes through the dispatch loop, with an asking function
  that keeps the contract. The turn sequences sent during these passes, in order, with
  the \<^verbatim>\<open>messages\<close> list before the first pass in front and the list after the last pass
  behind, form a chain in which each sequence is a prefix of every later one: every
  turn keeps its place and its value, and turns are only added at the end. Each call of
  \<^verbatim>\<open>ask_claude\<close>, in either script, sends \<^verbatim>\<open>messages + [new_message]\<close> and returns that
  list.
\<close>

theorem turns_append_only:
  assumes "appends_only ask"
    and "passes ask n user_content messages w = Some (user_content', messages', w')"
  shows "(\<exists>new. sent w' = sent w @ new \<and> sorted_wrt prefix (messages # new @ [messages']))
       \<and> sent (snd (ask_claude_tool_use remote new_message messages0 w0))
           = sent w0 @ [messages0 @ [new_message]]
       \<and> (\<forall>r messages1. fst (ask_claude_tool_use remote new_message messages0 w0) = Inr (r, messages1)
            \<longrightarrow> messages1 = messages0 @ [new_message])
       \<and> sent (snd (ask_claude_summarizer remote new_arg (Seq args0) v0))
           = sent v0 @ [args0 @ [new_arg]]
       \<and> (\<forall>r args1. fst (ask_claude_summarizer remote new_arg (Seq args0) v0) = Inr (r, args1)
            \<longrightarrow> args1 = args0 @ [new_arg])"
proof -
  have a: "\<exists>new. sent w' = sent w @ new \<and> sorted_wrt prefix (messages # new @ [messages'])"
    using assms by (rule passes_chain)
  have b: "sent (snd (ask_claude_tool_use remote new_message messages0 w0))
           = sent w0 @ [messages0 @ [new_message]]"
    by (rule ask_claude_tool_use_sent)
  have c: "\<forall>r messages1. fst (ask_claude_tool_use remote new_message messages0 w0) = Inr (r, messages1)
            \<longrightarrow> messages1 = messages0 @ [new_message]"
  proof (intro allI impI)
    fix r messages1
    assume "fst (ask_claude_tool_use remote new_message messages0 w0) = Inr (r, messages1)"
    then show "messages1 = messages0 @ [new_message]" by (rule ask_claude_tool_use_returned)
  qed
  have d: "sent (snd (ask_claude_summarizer remote new_arg (Seq args0) v0))
           = sent v0 @ [args0 @ [new_arg]]"
    by (rule ask_claude_summarizer_sent)
  have e: "\<forall>r args1. fst (ask_claude_summarizer remote new_arg (Seq args0) v0) = Inr (r, args1)
            \<longrightarrow> args1 = args0 @ [new_arg]"
  proof (intro allI impI)
    fix r args1
    assume "fst (ask_claude_summarizer remote new_arg (Seq args0) v0) = Inr (r, args1)"
    then show "args1 = args0 @ [new_arg]" by (rule ask_claude_summarizer_returned)
  qed
  show ?thesis by (intro conjI a b c d e)
qed

theorem turns_append_only_witness:
  "appends_only (\<lambda>nm ms w. Some (ask_claude_tool_use (\<lambda>n. Reply (Response ''tool_use''
      [ToolUseBlock ''toolu_1'' ''get_time'' []])) (nm :: message) ms w))
   \<and> passes (\<lambda>nm ms w. Some (ask_claude_tool_use (\<lambda>n. Reply (Response ''tool_use''
          [ToolUseBlock ''toolu_1'' ''get_time'' []])) nm ms w))
        (Suc (Suc 0)) (Text ''What time is it?'') [] \<lparr>calls = 0, sent = [], slept = []\<rparr>
      = Some (ToolResults [ToolResult ''toolu_1'' ''n/a''],
          [Message ''user'' (Text ''What time is it?''),
           Message ''assistant'' (Blocks [ToolUseBlock ''toolu_1'' ''get_time'' []]),
           Message ''user'' (ToolResults [ToolResult ''toolu_1'' ''n/a'']),
           Message ''assistant'' (Blocks [ToolUseBlock ''toolu_1'' ''get_time'' []])],
          \<lparr>calls = Suc (Suc 0),
             sent = [[Message ''user'' (Text ''What time is it?'')],
                     [Message ''user'' (Text ''What time is it?''),
                      Message ''assistant'' (Blocks [ToolUseBlock ''toolu_1'' ''get_time'' []]),
                      Message ''user'' (ToolResults [ToolResult ''toolu_1'' ''n/a''])]],
             slept = []\<rparr>)
   \<and> sorted_wrt prefix
        [[],
         [Message ''user'' (Text ''What time is it?'')],
         [Message ''user'' (Text ''What time is it?''),
          Message ''assistant'' (Blocks [ToolUseBlock ''toolu_1'' ''get_time'' []]),
          Message ''user'' (ToolResults [ToolResult ''toolu_1'' ''n/a''])],
         [Message ''user'' (Text ''What time is it?''),
          Message ''assistant'' (Blocks [ToolUseBlock ''toolu_1'' ''get_time'' []]),
          Message ''user'' (ToolResults [ToolResult ''toolu_1'' ''n/a'']),
          Message ''assistant'' (Blocks [ToolUseBlock ''toolu_1'' ''get_time'' []])]]"
proof -
  let ?r = "Response ''tool_use'' [ToolUseBlock ''toolu_1'' ''get_time'' []]"
  let ?ask = "\<lambda>nm ms (w :: message world).
     Some (ask_claude_tool_use (\<lambda>n. Reply ?r) (nm :: message) ms w)"
  let ?u1 = "Message ''user'' (Text ''What time is it?'')"
  let ?a = "Message ''assistant'' (Blocks [ToolUseBlock ''toolu_1'' ''get_time'' []])"
  let ?u2 = "Message ''user'' (ToolResults [ToolResult ''toolu_1'' ''n/a''])"
  let ?w0 = "\<lparr>calls = 0, sent = [], slept = []\<rparr> :: message world"
  let ?w2 = "\<lparr>calls = Suc (Suc 0), sent = [[?u1], [?u1, ?a, ?u2]], slept = []\<rparr> :: message world"
  have h1: "appends_only ?ask" by (rule appends_only_ask_claude)
  have d: "dispatch_reply ?r = Inr (Continue (ToolResults [ToolResult ''toolu_1'' ''n/a'']))"
    by (simp add: dispatch_reply_def handle_tool_use_def)
  have h2: "passes ?ask (Suc (Suc 0)) (Text ''What time is it?'') [] ?w0
      = Some (ToolResults [ToolResult ''toolu_1'' ''n/a''], [?u1, ?a, ?u2, ?a], ?w2)"
    by (simp add: iteration_def ask_claude_tool_use_reply d)
  from turns_append_only[OF h1 h2]
  have "\<exists>new. sent ?w2 = sent ?w0 @ new \<and> sorted_wrt prefix ([] # new @ [[?u1, ?a, ?u2, ?a]])"
    by (rule conjunct1)
  then have "sorted_wrt prefix ([] # [[?u1], [?u1, ?a, ?u2]] @ [[?u1, ?a, ?u2, ?a]])"
    by simp
  then have s: "sorted_wrt prefix [[], [?u1], [?u1, ?a, ?u2], [?u1, ?a, ?u2, ?a]]"
    by simp
  show ?thesis by (intro conjI h1 h2 s)
qed

section \<open>The summarizer's retry wrapper\<close>

text \<open>One pass through the loop of \<^verbatim>\<open>wrapper\<close>, by the outcome of the call.\<close>

lemma retry_loop_returns:
  assumes "func (args @ map (\<lambda>item. Str (fst item)) kwargs) [] w = (Inr r, w1)"
  shows "retry_loop m func args kwargs g w = Some (Inr r, w1)"
  using assms by (subst retry_loop.simps) simp

lemma retry_loop_propagates:
  assumes "func (args @ map (\<lambda>item. Str (fst item)) kwargs) [] w = (Inl e, w1)"
    and "e \<noteq> RateLimitError" and "e \<noteq> InternalServerError"
  shows "retry_loop m func args kwargs g w = Some (Inl e, w1)"
  using assms by (subst retry_loop.simps) simp

lemma retry_loop_rate_limit:
  assumes "func (args @ map (\<lambda>item. Str (fst item)) kwargs) [] w = (Inl RateLimitError, w1)"
  shows "retry_loop m func args kwargs g w =
           retry_loop m func args kwargs (snd (fibonacci_next m g))
             (sleep (fst (fibonacci_next m g)) w1)"
  using assms by (subst retry_loop.simps) (simp add: case_prod_beta)

lemma retry_loop_server_error:
  assumes "func (args @ map (\<lambda>item. Str (fst item)) kwargs) [] w = (Inl InternalServerError, w1)"
  shows "retry_loop m func args kwargs g w =
           retry_loop m func args kwargs (snd (fibonacci_next m g))
             (sleep (fst (fibonacci_next m g) + 30) w1)"
  using assms by (subst retry_loop.simps) (simp add: case_prod_beta)

text \<open>
  C7. When the call the wrapper makes raises an exception that is neither
  \<^verbatim>\<open>RateLimitError\<close> nor \<^verbatim>\<open>InternalServerError\<close>, the wrapper raises that exception in
  the world the call left: nothing is slept and the function is not called again. This
  holds at the first pass and at any later pass of the loop, whatever the state of the
  generator.
\<close>

theorem non_transient_failure_propagates:
  assumes "func (args @ map (\<lambda>item. Str (fst item)) kwargs) [] w = (Inl e, w1)"
    and "e \<noteq> RateLimitError" and "e \<noteq> InternalServerError"
  shows "wrapper max_wait_time func args kwargs w = Some (Inl e, w1)
       \<and> retry_loop max_wait_time func args kwargs g w = Some (Inl e, w1)"
  unfolding wrapper_def using assms by (simp add: retry_loop_propagates)

theorem non_transient_failure_propagates_witness:
  "ask_claude_func (\<lambda>n. Failure (OtherError ''AuthenticationError''))
      ([Turn (Message ''user'' (Text ''hi''))] @ map (\<lambda>item. Str (fst item)) []) []
      \<lparr>calls = 0, sent = [], slept = []\<rparr>
     = (Inl (OtherError ''AuthenticationError''),
        \<lparr>calls = Suc 0, sent = [[Turn (Message ''user'' (Text ''hi''))]], slept = []\<rparr>)
   \<and> OtherError ''AuthenticationError'' \<noteq> RateLimitError
   \<and> OtherError ''AuthenticationError'' \<noteq> InternalServerError
   \<and> wrapper (Finite 60) (ask_claude_func (\<lambda>n. Failure (OtherError ''AuthenticationError'')))
        [Turn (Message ''user'' (Text ''hi''))] [] \<lparr>calls = 0, sent = [], slept = []\<rparr>
     = Some (Inl (OtherError ''AuthenticationError''),
        \<lparr>calls = Suc 0, sent = [[Turn (Message ''user'' (Text ''hi''))]], slept = []\<rparr>)"
proof -
  let ?f = "ask_claude_func (\<lambda>n. Failure (OtherError ''AuthenticationError''))"
  let ?w1 = "\<lparr>calls = Suc 0, sent = [[Turn (Message ''user'' (Text ''hi''))]], slept = []\<rparr> :: pyarg world"
  have h1: "?f ([Turn (Message ''user'' (Text ''hi''))] @ map (\<lambda>item. Str (fst item)) []) []
      \<lparr>calls = 0, sent = [], slept = []\<rparr> = (Inl (OtherError ''AuthenticationError''), ?w1)"
    by (simp add: ask_claude_func_def bind_ask_claude_def ask_claude_summarizer_def create_def
        Let_def)
  have h2: "OtherError ''AuthenticationError'' \<noteq> RateLimitError" by simp
  have h3: "OtherError ''AuthenticationError'' \<noteq> InternalServerError" by simp
  from non_transient_failure_propagates[where func = ?f
      and args = "[Turn (Message ''user'' (Text ''hi''))]" and kwargs = "[]"
      and max_wait_time = "Finite 60" and g = Fresh, OF h1 h2 h3]
  have c: "wrapper (Finite 60) ?f [Turn (Message ''user'' (Text ''hi''))] []
        \<lparr>calls = 0, sent = [], slept = []\<rparr> = Some (Inl (OtherError ''AuthenticationError''), ?w1)"
    by (rule conjunct1)
  show ?thesis by (intro conjI h1 h2 h3 c)
qed

text \<open>With no keyword argument, the decorated function returns what the function
  returns when its first call returns.\<close>

lemma wrapper_returns_without_kwargs:
  assumes "func args [] w = (Inr r, w1)"
  shows "wrapper m func args [] w = Some (Inr r, w1)"
  unfolding wrapper_def using assms by (simp add: retry_loop_returns)

lemma ask_claude_func_kwargs:
  "ask_claude_func (\<lambda>n. Reply r) [nm] [(''messages'', Seq ms)] w =
     (Inr (r, ms @ [nm]), w\<lparr>calls := Suc (calls w), sent := sent w @ [ms @ [nm]]\<rparr>)"
  by (simp add: ask_claude_func_def bind_ask_claude_def ask_claude_summarizer_def create_def
      Let_def)

lemma ask_claude_decorated_kwargs:
  "ask_claude_decorated remote [nm] [(''messages'', Seq ms)] w = Some (Inl TypeError, w)"
  unfolding ask_claude_decorated_def wrapper_def
  by (subst retry_loop.simps)
     (simp add: ask_claude_func_def bind_ask_claude_def ask_claude_summarizer_def)

text \<open>
  C10 fails on a call with a keyword argument: \<^verbatim>\<open>wrapper\<close> calls
  \<^verbatim>\<open>func(*args, *kwargs)\<close>, which passes the names of the keyword arguments as positional
  arguments and drops their values. With a remote assistant that answers,
  \<^verbatim>\<open>ask_claude(new_message, messages=ms)\<close> returns the reply and \<^verbatim>\<open>ms + [new_message]\<close>
  when it is not decorated; decorated, it gets the string \<^verbatim>\<open>"messages"\<close> as its
  \<^verbatim>\<open>messages\<close> and raises \<^verbatim>\<open>TypeError\<close> before it asks.
\<close>

theorem decorated_call_drops_keyword_arguments:
  "ask_claude_func (\<lambda>n. Reply r) [new_message] [(''messages'', Seq ms)] w =
     (Inr (r, ms @ [new_message]),
      w\<lparr>calls := Suc (calls w), sent := sent w @ [ms @ [new_message]]\<rparr>)
   \<and> ask_claude_decorated (\<lambda>n. Reply r) [new_message] [(''messages'', Seq ms)] w =
       Some (Inl TypeError, w)"
  by (simp add: ask_claude_func_kwargs ask_claude_decorated_kwargs)

section \<open>The capabilities and the caption source\<close>

text \<open>
  C8. For every location string that holds \<^verbatim>\<open>Northsborough\<close> as a substring, the weather
  capability returns \<^verbatim>\<open>Did you mean Northborough, MA?\<close>, and so does the handler when the
  request names \<^verbatim>\<open>get_weather\<close> with that location.
\<close>

theorem northsborough_is_questioned:
  assumes "sublist ''Northsborough'' location"
  shows "get_weather location = ''Did you mean Northborough, MA?''
       \<and> handle_tool_use ''get_weather'' [(''location'', location)]
           = Inr ''Did you mean Northborough, MA?''"
  using assms by (simp add: get_weather_def handle_tool_use_def getitem_def)

theorem northsborough_is_questioned_witness:
  "sublist ''Northsborough'' ''Northsborough, NH''
   \<and> get_weather ''Northsborough, NH'' = ''Did you mean Northborough, MA?''
   \<and> handle_tool_use ''get_weather'' [(''location'', ''Northsborough, NH'')]
       = Inr ''Did you mean Northborough, MA?''"
proof -
  have h: "sublist ''Northsborough'' ''Northsborough, NH''" by code_simp
  from northsborough_is_questioned[OF h] h show ?thesis by (intro conjI) simp_all
qed

text \<open>
  C9. When the caption source reports no English captions for the video URL, \<^verbatim>\<open>main\<close>
  returns without printing, in the world it started in: the remote assistant is not
  called and nothing is sent.
\<close>

theorem no_captions_no_request:
  assumes "extract_info video_url = Inr requested" and "no_english_captions requested"
  shows "download_captions extract_info http_get video_url = Inr None
       \<and> main_summarizer extract_info http_get remote video_url w = Some (Inr None, w)"
  using assms
  by (auto simp: main_summarizer_def download_captions_def no_english_captions_def getitem_def
      split: option.splits)

theorem no_captions_no_request_witness:
  "(\<lambda>url. Inr (Some [(''en'', [])])) ''https://www.youtube.com/watch?v=abc'' = Inr (Some [(''en'', [])])
   \<and> no_english_captions (Some [(''en'', [])])
   \<and> download_captions (\<lambda>url. Inr (Some [(''en'', [])])) (\<lambda>url. Inr ''WEBVTT'')
        ''https://www.youtube.com/watch?v=abc'' = Inr None
   \<and> main_summarizer (\<lambda>url. Inr (Some [(''en'', [])])) (\<lambda>url. Inr ''WEBVTT'')
        (\<lambda>n. Reply (Response ''end_turn'' [TextBlock ''A summary'']))
        ''https://www.youtube.com/watch?v=abc'' \<lparr>calls = 0, sent = [], slept = []\<rparr>
       = Some (Inr None, \<lparr>calls = 0, sent = [], slept = []\<rparr>)"
proof -
  let ?e = "\<lambda>url :: string. Inr (Some [(''en'', [])]) :: exn + subtitles option"
  have h1: "?e ''https://www.youtube.com/watch?v=abc'' = Inr (Some [(''en'', [])])" by simp
  have h2: "no_english_captions (Some [(''en'', [])])" by (simp add: no_english_captions_def)
  from no_captions_no_request[of ?e, OF h1 h2] h2 show ?thesis by simp
qed

end
